theory Spec2Isabelle
  imports Complex_Main
begin

section \<open>Python strings\<close>

text \<open>
  A Python \<^verbatim>\<open>str\<close> is a list of code points. \<open>lit\<close> turns a literal of the source
  into one. A \<^verbatim>\<open>str\<close> has a UTF-8 encoding unless it holds a surrogate (U+D800 to U+DFFF),
  which \<^verbatim>\<open>json.loads\<close> produces from an escape such as \<^verbatim>\<open>"\ud800"\<close>; the encoding of a
  code point takes one to four bytes.
\<close>

type_synonym pystr = "nat list"

definition lit :: "string \<Rightarrow> pystr" where
  "lit s = map of_char s"

definition encodable :: "pystr \<Rightarrow> bool" where
  "encodable s = list_all (\<lambda>c. c < 55296 \<or> 57343 < c) s"

definition utf8_length :: "pystr \<Rightarrow> nat" where
  "utf8_length s =
     sum_list (map (\<lambda>c. if c < 128 then 1 else if c < 2048 then 2
                          else if c < 65536 then 3 else 4) s)"

section \<open>Values exchanged with the HTTP layer\<close>

text \<open>
  The handlers of \<^verbatim>\<open>app/routes/user.py\<close> receive what \<^verbatim>\<open>request.get_json()\<close>
  returns and answer with \<^verbatim>\<open>jsonify(...)\<close> of a Python value. Both are values of the
  JSON data model: \<^verbatim>\<open>None\<close>, a bool, an int, a float, a str, a list or a dict. A dict
  is an association list whose keys are distinct; a lookup is \<open>map_of\<close>, and the order
  of the list has no meaning in the JSON text. A float is the number it denotes, or
  \<open>None\<close> for \<^verbatim>\<open>NaN\<close> and the infinities, which \<^verbatim>\<open>json.loads\<close> accepts too.
\<close>

datatype json =
    JNull
  | JBool bool
  | JInt int
  | JFloat "rat option"
  | JStr pystr
  | JArr "json list"
  | JObj "(pystr \<times> json) list"

text \<open>Python's truth value of an object, as tested by \<^verbatim>\<open>if not data\<close>.\<close>

fun truthy :: "json \<Rightarrow> bool" where
  "truthy JNull = False"
| "truthy (JBool b) = b"
| "truthy (JInt i) = (i \<noteq> 0)"
| "truthy (JFloat x) = (x \<noteq> Some 0)"
| "truthy (JStr s) = (s \<noteq> [])"
| "truthy (JArr xs) = (xs \<noteq> [])"
| "truthy (JObj kvs) = (kvs \<noteq> [])"

section \<open>The users table\<close>

text \<open>
  \<^verbatim>\<open>init_db.py\<close> declares the table:
  \<^verbatim>\<open>
  CREATE TABLE IF NOT EXISTS users (
      id INTEGER PRIMARY KEY AUTOINCREMENT,
      name TEXT NOT NULL,
      email TEXT NOT NULL UNIQUE,
      password TEXT NOT NULL)
  \<close>
  A database state is the list of rows, in row-id order, together with the counter that
  \<^verbatim>\<open>AUTOINCREMENT\<close> keeps in \<^verbatim>\<open>sqlite_sequence\<close>: the largest row id the table has ever
  held. Faults of the storage medium are outside the model.
\<close>

record user_row =
  col_id :: int
  col_name :: pystr
  col_email :: pystr
  col_password :: pystr

record db =
  users :: "user_row list"
  seq :: int

text \<open>
  The exceptions the modelled code raises. \<^verbatim>\<open>sqlite3.IntegrityError\<close> is raised by a
  statement that violates the \<^verbatim>\<open>UNIQUE\<close> constraint; \<open>Sqlite3Error\<close> stands for the
  other subclasses of \<^verbatim>\<open>sqlite3.Error\<close>. \<^verbatim>\<open>ValueError\<close>, \<^verbatim>\<open>UnicodeEncodeError\<close> and
  \<^verbatim>\<open>OverflowError\<close> are not subclasses of it. A statement that raises changes nothing,
  and the connection's context manager rolls back.
\<close>

datatype error =
    ValidationError "(pystr \<times> pystr list) list"
  | IntegrityError
  | Sqlite3Error
  | ValueError
  | UnicodeEncodeError
  | OverflowError
  | KeyError pystr

subsection \<open>Binding the parameters of a statement\<close>

text \<open>
  \<^verbatim>\<open>cursor.execute(sql, parameters)\<close> binds the parameters in order, before the
  statement runs, and raises at the first that it cannot bind. A \<^verbatim>\<open>str\<close> is bound as
  its UTF-8 encoding: \<^verbatim>\<open>UnicodeEncodeError\<close> when it has none, \<^verbatim>\<open>OverflowError\<close> when
  the encoding is longer than \<^verbatim>\<open>INT_MAX\<close> bytes, and an \<^verbatim>\<open>sqlite3.Error\<close> when it is
  longer than SQLite's limit of 1000000000 bytes. An \<^verbatim>\<open>int\<close> is bound as a signed
  64-bit integer: \<^verbatim>\<open>OverflowError\<close> when it is out of that range.
\<close>

definition bind_text :: "pystr \<Rightarrow> error option" where
  "bind_text s =
     (if \<not> encodable s then Some UnicodeEncodeError
      else if 2147483647 < utf8_length s then Some OverflowError
      else if 1000000000 < utf8_length s then Some Sqlite3Error
      else None)"

definition max_rowid :: int where
  "max_rowid = 9223372036854775807"

definition bind_int :: "int \<Rightarrow> error option" where
  "bind_int i =
     (if i < - max_rowid - 1 then Some OverflowError
      else if max_rowid < i then Some OverflowError
      else None)"

fun bind_parameters :: "error option list \<Rightarrow> error option" where
  "bind_parameters [] = None"
| "bind_parameters (None # ps) = bind_parameters ps"
| "bind_parameters (Some e # ps) = Some e"

subsection \<open>The password hasher\<close>

text \<open>
  The hasher is the \<^verbatim>\<open>flask_bcrypt\<close> object shared by the application.
  \<^verbatim>\<open>generate_password_hash\<close> refuses an empty password with \<^verbatim>\<open>ValueError\<close>. Both
  methods encode the password (and the stored hash) as UTF-8, which raises
  \<^verbatim>\<open>UnicodeEncodeError\<close> for a \<^verbatim>\<open>str\<close> with a surrogate, and then call the bcrypt
  library. The library is a parameter of the model: \<open>hashpw\<close> takes the fresh salt of
  the call and the password and returns the digest, \<open>checkpw\<close> takes a stored hash and a
  password and returns whether they match; either may raise instead (as
  \<^verbatim>\<open>ValueError\<close> for a password longer than 72 bytes in bcrypt 5).
\<close>

record bcrypt =
  hashpw :: "pystr \<Rightarrow> pystr \<Rightarrow> error + pystr"
  checkpw :: "pystr \<Rightarrow> pystr \<Rightarrow> error + bool"

definition generate_password_hash :: "bcrypt \<Rightarrow> pystr \<Rightarrow> pystr \<Rightarrow> error + pystr" where
  "generate_password_hash bc salt password =
     (if password = [] then Inl ValueError
      else if \<not> encodable password then Inl UnicodeEncodeError
      else hashpw bc salt password)"

definition check_password_hash :: "bcrypt \<Rightarrow> pystr \<Rightarrow> pystr \<Rightarrow> error + bool" where
  "check_password_hash bc pw_hash password =
     (if \<not> encodable pw_hash then Inl UnicodeEncodeError
      else if \<not> encodable password then Inl UnicodeEncodeError
      else checkpw bc pw_hash password)"

section \<open>UserModel\<close>

text \<open>\<^verbatim>\<open>dict(row)\<close> of a row selected by \<^verbatim>\<open>SELECT id, name, email\<close>.\<close>

definition row_dict :: "user_row \<Rightarrow> json" where
  "row_dict r =
     JObj [(lit ''id'', JInt (col_id r)), (lit ''name'', JStr (col_name r)),
           (lit ''email'', JStr (col_email r))]"

text \<open>\<^verbatim>\<open>dict(row)\<close> of a row selected by \<^verbatim>\<open>SELECT *\<close>.\<close>

definition row_dict_all :: "user_row \<Rightarrow> json" where
  "row_dict_all r =
     JObj [(lit ''id'', JInt (col_id r)), (lit ''name'', JStr (col_name r)),
           (lit ''email'', JStr (col_email r)), (lit ''password'', JStr (col_password r))]"

definition get_all_users :: "db \<Rightarrow> json list" where
  "get_all_users d = map row_dict (users d)"

definition get_user_by_id :: "db \<Rightarrow> int \<Rightarrow> error + json option" where
  "get_user_by_id d user_id =
     (case bind_parameters [bind_int user_id] of
        Some e \<Rightarrow> Inl e
      | None \<Rightarrow>
          (case filter (\<lambda>r. col_id r = user_id) (users d) of
             [] \<Rightarrow> Inr None
           | user # _ \<Rightarrow> Inr (Some (row_dict user))))"

text \<open>
  The largest row id the table holds or has ever held. An \<^verbatim>\<open>AUTOINCREMENT\<close> insert
  assigns one more; when the largest is the last signed 64-bit integer, the insert fails
  with \<^verbatim>\<open>SQLITE_FULL\<close> as soon as it asks for a row id.
\<close>

definition largest_rowid :: "db \<Rightarrow> int" where
  "largest_rowid d = fold max (map col_id (users d)) (seq d)"

definition next_rowid :: "db \<Rightarrow> int" where
  "next_rowid d = largest_rowid d + 1"

text \<open>
  \<^verbatim>\<open>INSERT INTO users (name, email, password) VALUES (?, ?, ?)\<close>, followed by
  \<^verbatim>\<open>cursor.lastrowid\<close>: the statement of \<^verbatim>\<open>create_user\<close> and of \<^verbatim>\<open>init_db.py\<close>.
\<close>

definition insert_user :: "db \<Rightarrow> pystr \<Rightarrow> pystr \<Rightarrow> pystr \<Rightarrow> (error + int) \<times> db" where
  "insert_user d name email password =
     (case bind_parameters [bind_text name, bind_text email, bind_text password] of
        Some e \<Rightarrow> (Inl e, d)
      | None \<Rightarrow>
          if max_rowid \<le> largest_rowid d then (Inl Sqlite3Error, d)
          else if email \<in> set (map col_email (users d)) then (Inl IntegrityError, d)
          else
            let rowid = next_rowid d;
                row = \<lparr>col_id = rowid, col_name = name, col_email = email,
                       col_password = password\<rparr>
            in (Inr rowid, d\<lparr>users := users d @ [row], seq := rowid\<rparr>))"

definition create_user ::
  "bcrypt \<Rightarrow> pystr \<Rightarrow> db \<Rightarrow> pystr \<Rightarrow> pystr \<Rightarrow> pystr \<Rightarrow> (error + int) \<times> db" where
  "create_user bc salt d name email password =
     (case generate_password_hash bc salt password of
        Inl e \<Rightarrow> (Inl e, d)
      | Inr hashed_password \<Rightarrow> insert_user d name email hashed_password)"

text \<open>
  \<^verbatim>\<open>UPDATE users SET name = ?, email = ? WHERE id = ?\<close>, followed by
  \<^verbatim>\<open>cursor.rowcount > 0\<close>. The statement fails when it would give a row the email
  of a row it leaves alone.
\<close>

definition update_user :: "db \<Rightarrow> int \<Rightarrow> pystr \<Rightarrow> pystr \<Rightarrow> (error + bool) \<times> db" where
  "update_user d user_id name email =
     (case bind_parameters [bind_text name, bind_text email, bind_int user_id] of
        Some e \<Rightarrow> (Inl e, d)
      | None \<Rightarrow>
          let matched = filter (\<lambda>r. col_id r = user_id) (users d);
              others = filter (\<lambda>r. col_id r \<noteq> user_id) (users d)
          in if matched \<noteq> [] \<and> email \<in> set (map col_email others)
             then (Inl IntegrityError, d)
             else (Inr (matched \<noteq> []),
                   d\<lparr>users := map (\<lambda>r. if col_id r = user_id
                                         then r\<lparr>col_name := name, col_email := email\<rparr> else r)
                                    (users d)\<rparr>))"


subsection \<open>The LIKE operator\<close>

text \<open>
  SQLite's \<^verbatim>\<open>LIKE\<close> with no \<^verbatim>\<open>ESCAPE\<close> clause: in the pattern, \<^verbatim>\<open>%\<close> (code point 37)
  stands for any run of characters and \<^verbatim>\<open>_\<close> (95) for any one character; every other
  character stands for itself, where the letters A to Z equal their lower-case forms.
  The operator reads the pattern and the text as C strings, up to their first NUL, and
  refuses a pattern whose encoding is longer than 50000 bytes.
\<close>

definition sqlite_lower :: "nat \<Rightarrow> nat" where
  "sqlite_lower c = (if 65 \<le> c \<and> c \<le> 90 then c + 32 else c)"

fun sql_like :: "pystr \<Rightarrow> pystr \<Rightarrow> bool" where
  "sql_like [] s = (s = [])"
| "sql_like (p # ps) [] = (p = 37 \<and> sql_like ps [])"
| "sql_like (p # ps) (c # cs) =
     (if p = 37 then sql_like ps (c # cs) \<or> sql_like (p # ps) cs
      else (p = 95 \<or> sqlite_lower p = sqlite_lower c) \<and> sql_like ps cs)"

definition c_string :: "pystr \<Rightarrow> pystr" where
  "c_string s = takeWhile (\<lambda>c. c \<noteq> 0) s"

text \<open>
  \<^verbatim>\<open>SELECT id, name, email FROM users WHERE name LIKE ?\<close> with the parameter
  \<^verbatim>\<open>f"%{name}%"\<close>. The operator is evaluated once for each row.
\<close>

definition search_users :: "db \<Rightarrow> pystr \<Rightarrow> error + json list" where
  "search_users d name =
     (let pattern = lit ''%'' @ name @ lit ''%'' in
      case bind_parameters [bind_text pattern] of
        Some e \<Rightarrow> Inl e
      | None \<Rightarrow>
          if users d \<noteq> [] \<and> 50000 < utf8_length pattern then Inl Sqlite3Error
          else Inr (map row_dict
                 (filter (\<lambda>r. sql_like (c_string pattern) (c_string (col_name r)))
                    (users d))))"

text \<open>
  \<^verbatim>\<open>SELECT * FROM users WHERE email = ?\<close>, \<^verbatim>\<open>fetchone\<close>, and the check of the stored
  hash, which is made only when a row was found.
\<close>

definition verify_login :: "bcrypt \<Rightarrow> db \<Rightarrow> pystr \<Rightarrow> pystr \<Rightarrow> error + json option" where
  "verify_login bc d email password =
     (case bind_parameters [bind_text email] of
        Some e \<Rightarrow> Inl e
      | None \<Rightarrow>
          (case filter (\<lambda>r. col_email r = email) (users d) of
             [] \<Rightarrow> Inr None
           | user # _ \<Rightarrow>
               (case check_password_hash bc (col_password user) password of
                  Inl e \<Rightarrow> Inl e
                | Inr matches \<Rightarrow> Inr (if matches then Some (row_dict_all user) else None))))"

section \<open>Validation schemas\<close>

text \<open>
  \<^verbatim>\<open>app/schemas/user.py\<close> declares three marshmallow schemas. A declaration
  \<^verbatim>\<open>fields.Str(required=True, validate=validate.Length(min=1))\<close> is a record of the
  field's type, its flags and the minimum length of its \<^verbatim>\<open>Length\<close> validator, if it
  has one.
\<close>

datatype field_type = FInt | FStr | FEmail

record field_decl =
  attr :: pystr
  ftype :: field_type
  required :: bool
  dump_only :: bool
  load_only :: bool
  min_length :: "nat option"

definition UserSchema :: "field_decl list" where
  "UserSchema =
     [\<lparr>attr = lit ''id'', ftype = FInt, required = False, dump_only = True,
        load_only = False, min_length = None\<rparr>,
      \<lparr>attr = lit ''name'', ftype = FStr, required = True, dump_only = False,
        load_only = False, min_length = Some 1\<rparr>,
      \<lparr>attr = lit ''email'', ftype = FEmail, required = True, dump_only = False,
        load_only = False, min_length = None\<rparr>,
      \<lparr>attr = lit ''password'', ftype = FStr, required = True, dump_only = False,
        load_only = True, min_length = Some 6\<rparr>]"

definition UserUpdateSchema :: "field_decl list" where
  "UserUpdateSchema =
     [\<lparr>attr = lit ''name'', ftype = FStr, required = True, dump_only = False,
        load_only = False, min_length = Some 1\<rparr>,
      \<lparr>attr = lit ''email'', ftype = FEmail, required = True, dump_only = False,
        load_only = False, min_length = None\<rparr>]"

definition LoginSchema :: "field_decl list" where
  "LoginSchema =
     [\<lparr>attr = lit ''email'', ftype = FEmail, required = True, dump_only = False,
        load_only = False, min_length = None\<rparr>,
      \<lparr>attr = lit ''password'', ftype = FStr, required = True, dump_only = False,
        load_only = False, min_length = None\<rparr>]"

subsection \<open>Schema.load\<close>

text \<open>
  What marshmallow's \<^verbatim>\<open>Schema.load\<close> does with these declarations. Each field that
  is not \<^verbatim>\<open>dump_only\<close> is looked up in the input and deserialized on its own; the
  messages of all fields are collected before \<^verbatim>\<open>ValidationError\<close> is raised. A key of
  the input that no loaded field declares is an error too; these keys are visited by
  iterating over a Python set. Two things are parameters: \<open>is_email\<close>, the syntax check
  of \<^verbatim>\<open>validate.Email\<close>, and \<open>rank\<close>, which orders the keys of a set as the
  interpreter iterates over them (it varies with the hash seed of the process). The only
  \<^verbatim>\<open>Int\<close> field is \<^verbatim>\<open>dump_only\<close>, so the deserialization of integers is never reached;
  it is modelled for JSON integers.
\<close>

fun digits :: "nat \<Rightarrow> nat \<Rightarrow> pystr" where
  "digits 0 n = []"
| "digits (Suc k) n =
     (if n < 10 then [48 + n] else digits k (n div 10) @ [48 + n mod 10])"

definition str_of_nat :: "nat \<Rightarrow> pystr" where
  "str_of_nat n = digits (Suc n) n"

definition Length_message :: "nat \<Rightarrow> pystr" where
  "Length_message m = lit ''Shorter than minimum length '' @ str_of_nat m @ lit ''.''"

text \<open>
  \<^verbatim>\<open>Field.deserialize\<close>: the argument is \<open>None\<close> when the key is missing from the
  input. The result is the list of messages, or the value to store (none for a missing
  optional field). The length that \<^verbatim>\<open>Length\<close> compares is the number of code points.
\<close>

definition deserialize ::
  "(pystr \<Rightarrow> bool) \<Rightarrow> field_decl \<Rightarrow> json option \<Rightarrow> pystr list + json option" where
  "deserialize is_email f raw =
     (case raw of
        None \<Rightarrow>
          if required f then Inl [lit ''Missing data for required field.''] else Inr None
      | Some JNull \<Rightarrow> Inl [lit ''Field may not be null.'']
      | Some v \<Rightarrow>
          (case ftype f of
             FInt \<Rightarrow>
               (case v of JInt i \<Rightarrow> Inr (Some (JInt i))
                | _ \<Rightarrow> Inl [lit ''Not a valid integer.''])
           | FStr \<Rightarrow>
               (case v of
                  JStr s \<Rightarrow>
                    (case min_length f of
                       None \<Rightarrow> Inr (Some (JStr s))
                     | Some m \<Rightarrow>
                         if length s < m then Inl [Length_message m]
                         else Inr (Some (JStr s)))
                | _ \<Rightarrow> Inl [lit ''Not a valid string.''])
           | FEmail \<Rightarrow>
               (case v of
                  JStr s \<Rightarrow>
                    if is_email s then Inr (Some (JStr s))
                    else Inl [lit ''Not a valid email address.'']
                | _ \<Rightarrow> Inl [lit ''Not a valid email address.''])))"

text \<open>
  The loop over the loaded fields, with the error store and the result dictionary as
  accumulators.
\<close>

fun load_fields ::
  "(pystr \<Rightarrow> bool) \<Rightarrow> field_decl list \<Rightarrow> (pystr \<times> json) list \<Rightarrow>
   (pystr \<times> pystr list) list \<Rightarrow> (pystr \<times> json) list \<Rightarrow>
   (pystr \<times> pystr list) list \<times> (pystr \<times> json) list" where
  "load_fields is_email [] data errors ret = (errors, ret)"
| "load_fields is_email (f # fs) data errors ret =
     (case deserialize is_email f (map_of data (attr f)) of
        Inl messages \<Rightarrow> load_fields is_email fs data (errors @ [(attr f, messages)]) ret
      | Inr None \<Rightarrow> load_fields is_email fs data errors ret
      | Inr (Some v) \<Rightarrow> load_fields is_email fs data errors (ret @ [(attr f, v)]))"

text \<open>
  \<^verbatim>\<open>for key in set(data) - fields\<close>: the keys of the input that no loaded field
  declares, in the order of the set's iteration.
\<close>

definition unknown_keys ::
  "(pystr \<Rightarrow> nat) \<Rightarrow> field_decl list \<Rightarrow> (pystr \<times> json) list \<Rightarrow> pystr list" where
  "unknown_keys rank loaded kvs =
     sort_key rank (filter (\<lambda>k. k \<notin> set (map attr loaded)) (map fst kvs))"

definition load ::
  "(pystr \<Rightarrow> bool) \<Rightarrow> (pystr \<Rightarrow> nat) \<Rightarrow> field_decl list \<Rightarrow> json \<Rightarrow>
   error + (pystr \<times> json) list" where
  "load is_email rank schema data =
     (case data of
        JObj kvs \<Rightarrow>
          (let loaded = filter (\<lambda>f. \<not> dump_only f) schema;
               (errors, ret) = load_fields is_email loaded kvs [] [];
               errors = errors @
                        map (\<lambda>k. (k, [lit ''Unknown field.''])) (unknown_keys rank loaded kvs)
           in if errors = [] then Inr ret else Inl (ValidationError errors))
      | _ \<Rightarrow> Inl (ValidationError [(lit ''_schema'', [lit ''Invalid input type.''])]))"

section \<open>Request handlers\<close>

text \<open>
  A handler answers with a status code and a JSON body; an exception that no
  \<^verbatim>\<open>except\<close> clause of the handler catches leaves it unhandled (Flask then answers
  with status 500). Beside the answer, a handler's result holds the database state it
  leaves and the calls it made, in order: loads of a schema and operations of the
  \<^verbatim>\<open>UserModel\<close>.
\<close>

datatype outcome = Response nat json | Unhandled error

datatype call =
    Load pystr
  | Create_user pystr pystr pystr
  | Update_user int pystr pystr
  | Verify_login pystr pystr

record result =
  response :: outcome
  store :: db
  calls :: "call list"

text \<open>\<^verbatim>\<open>validated_data[key]\<close>, which raises \<^verbatim>\<open>KeyError\<close> for a missing key.\<close>

definition getitem :: "(pystr \<times> json) list \<Rightarrow> pystr \<Rightarrow> error + pystr" where
  "getitem validated_data key =
     (case map_of validated_data key of
        Some (JStr s) \<Rightarrow> Inr s
      | _ \<Rightarrow> Inl (KeyError key))"

definition no_input :: outcome where
  "no_input = Response 400 (JObj [(lit ''error'', JStr (lit ''No input data provided''))])"

definition validation_error :: "(pystr \<times> pystr list) list \<Rightarrow> outcome" where
  "validation_error messages =
     Response 400
       (JObj [(lit ''error'', JStr (lit ''Validation error'')),
              (lit ''messages'', JObj (map (\<lambda>(k, ms). (k, JArr (map JStr ms))) messages))])"

definition database_error :: outcome where
  "database_error = Response 500 (JObj [(lit ''error'', JStr (lit ''Database error''))])"

text \<open>
  The \<^verbatim>\<open>except\<close> clauses of \<^verbatim>\<open>create_user\<close> and \<^verbatim>\<open>update_user\<close>:
  \<^verbatim>\<open>ValidationError\<close> is answered with 400 and the messages,
  \<^verbatim>\<open>sqlite3.IntegrityError\<close> with 409 and the handler's own text, any other
  \<^verbatim>\<open>sqlite3.Error\<close> with 500; nothing else is caught.
\<close>

definition handle_error :: "pystr \<Rightarrow> error \<Rightarrow> outcome" where
  "handle_error conflict e =
     (case e of
        ValidationError messages \<Rightarrow> validation_error messages
      | IntegrityError \<Rightarrow> Response 409 (JObj [(lit ''error'', JStr conflict)])
      | Sqlite3Error \<Rightarrow> database_error
      | _ \<Rightarrow> Unhandled e)"

text \<open>
  The \<^verbatim>\<open>except\<close> clauses of \<^verbatim>\<open>login\<close>: \<^verbatim>\<open>ValidationError\<close> and
  \<^verbatim>\<open>sqlite3.Error\<close>.
\<close>

definition handle_login_error :: "error \<Rightarrow> outcome" where
  "handle_login_error e =
     (case e of
        ValidationError messages \<Rightarrow> validation_error messages
      | IntegrityError \<Rightarrow> database_error
      | Sqlite3Error \<Rightarrow> database_error
      | _ \<Rightarrow> Unhandled e)"

text \<open>\<^verbatim>\<open>POST /users\<close>\<close>

definition create_user_route ::
  "(pystr \<Rightarrow> bool) \<Rightarrow> (pystr \<Rightarrow> nat) \<Rightarrow> bcrypt \<Rightarrow> pystr \<Rightarrow> db \<Rightarrow> json \<Rightarrow> result" where
  "create_user_route is_email rank bc salt d data =
     (if \<not> truthy data then \<lparr>response = no_input, store = d, calls = []\<rparr>
      else
        case load is_email rank UserSchema data of
          Inl e \<Rightarrow>
            \<lparr>response = handle_error (lit ''User with this email already exists'') e,
             store = d, calls = [Load (lit ''UserSchema'')]\<rparr>
        | Inr validated_data \<Rightarrow>
            (case (getitem validated_data (lit ''name''),
                   getitem validated_data (lit ''email''),
                   getitem validated_data (lit ''password'')) of
               (Inr name, Inr email, Inr password) \<Rightarrow>
                 (case create_user bc salt d name email password of
                    (Inr user_id, d') \<Rightarrow>
                      \<lparr>response =
                         Response 201
                           (JObj [(lit ''message'', JStr (lit ''User created successfully'')),
                                  (lit ''user_id'', JInt user_id)]),
                       store = d',
                       calls = [Load (lit ''UserSchema''), Create_user name email password]\<rparr>
                  | (Inl e, d') \<Rightarrow>
                      \<lparr>response = handle_error (lit ''User with this email already exists'') e,
                       store = d',
                       calls = [Load (lit ''UserSchema''), Create_user name email password]\<rparr>)
             | (Inl e, _, _) \<Rightarrow>
                 \<lparr>response = Unhandled e, store = d, calls = [Load (lit ''UserSchema'')]\<rparr>
             | (_, Inl e, _) \<Rightarrow>
                 \<lparr>response = Unhandled e, store = d, calls = [Load (lit ''UserSchema'')]\<rparr>
             | (_, _, Inl e) \<Rightarrow>
                 \<lparr>response = Unhandled e, store = d, calls = [Load (lit ''UserSchema'')]\<rparr>))"

text \<open>\<^verbatim>\<open>PUT /user/<int:user_id>\<close>\<close>

definition update_user_route ::
  "(pystr \<Rightarrow> bool) \<Rightarrow> (pystr \<Rightarrow> nat) \<Rightarrow> db \<Rightarrow> int \<Rightarrow> json \<Rightarrow> result" where
  "update_user_route is_email rank d user_id data =
     (if \<not> truthy data then \<lparr>response = no_input, store = d, calls = []\<rparr>
      else
        case load is_email rank UserUpdateSchema data of
          Inl e \<Rightarrow>
            \<lparr>response = handle_error (lit ''Email already in use'') e,
             store = d, calls = [Load (lit ''UserUpdateSchema'')]\<rparr>
        | Inr validated_data \<Rightarrow>
            (case (getitem validated_data (lit ''name''),
                   getitem validated_data (lit ''email'')) of
               (Inr name, Inr email) \<Rightarrow>
                 (case update_user d user_id name email of
                    (Inr success, d') \<Rightarrow>
                      \<lparr>response =
                         (if success
                          then Response 200
                                 (JObj [(lit ''message'', JStr (lit ''User updated successfully''))])
                          else Response 404 (JObj [(lit ''error'', JStr (lit ''User not found''))])),
                       store = d',
                       calls = [Load (lit ''UserUpdateSchema''),
                                Update_user user_id name email]\<rparr>
                  | (Inl e, d') \<Rightarrow>
                      \<lparr>response = handle_error (lit ''Email already in use'') e,
                       store = d',
                       calls = [Load (lit ''UserUpdateSchema''),
                                Update_user user_id name email]\<rparr>)
             | (Inl e, _) \<Rightarrow>
                 \<lparr>response = Unhandled e, store = d,
                  calls = [Load (lit ''UserUpdateSchema'')]\<rparr>
             | (_, Inl e) \<Rightarrow>
                 \<lparr>response = Unhandled e, store = d,
                  calls = [Load (lit ''UserUpdateSchema'')]\<rparr>))"

text \<open>\<^verbatim>\<open>POST /login\<close>\<close>

definition login ::
  "(pystr \<Rightarrow> bool) \<Rightarrow> (pystr \<Rightarrow> nat) \<Rightarrow> bcrypt \<Rightarrow> db \<Rightarrow> json \<Rightarrow> result" where
  "login is_email rank bc d data =
     (if \<not> truthy data then \<lparr>response = no_input, store = d, calls = []\<rparr>
      else
        case load is_email rank LoginSchema data of
          Inl e \<Rightarrow>
            \<lparr>response = handle_login_error e, store = d,
             calls = [Load (lit ''LoginSchema'')]\<rparr>
        | Inr validated_data \<Rightarrow>
            (case (getitem validated_data (lit ''email''),
                   getitem validated_data (lit ''password'')) of
               (Inr email, Inr password) \<Rightarrow>
                 \<lparr>response =
                    (case verify_login bc d email password of
                       Inl e \<Rightarrow> handle_login_error e
                     | Inr (Some user) \<Rightarrow>
                         (case user of
                            JObj kvs \<Rightarrow>
                              (case map_of kvs (lit ''id'') of
                                 Some user_id \<Rightarrow>
                                   Response 200
                                     (JObj [(lit ''status'', JStr (lit ''success'')),
                                            (lit ''user_id'', user_id),
                                            (lit ''message'', JStr (lit ''Login successful''))])
                               | None \<Rightarrow> Unhandled (KeyError (lit ''id'')))
                          | _ \<Rightarrow> Unhandled (KeyError (lit ''id'')))
                     | Inr None \<Rightarrow>
                         Response 401
                           (JObj [(lit ''status'', JStr (lit ''failed'')),
                                  (lit ''error'', JStr (lit ''Invalid credentials''))])),
                  store = d,
                  calls = [Load (lit ''LoginSchema''), Verify_login email password]\<rparr>
             | (Inl e, _) \<Rightarrow>
                 \<lparr>response = Unhandled e, store = d, calls = [Load (lit ''LoginSchema'')]\<rparr>
             | (_, Inl e) \<Rightarrow>
                 \<lparr>response = Unhandled e, store = d, calls = [Load (lit ''LoginSchema'')]\<rparr>))"

section \<open>Database states and histories\<close>


text \<open>The table as \<^verbatim>\<open>DROP TABLE\<close> and \<^verbatim>\<open>CREATE TABLE\<close> leave it.\<close>

definition empty_db :: db where
  "empty_db = \<lparr>users = [], seq = 0\<rparr>"




text \<open>
  \<^verbatim>\<open>init_db.py\<close>: the sample rows are hashed, each with a salt of its own, and then
  inserted into the empty table by \<^verbatim>\<open>executemany\<close>.
\<close>

fun executemany :: "db \<Rightarrow> (pystr \<times> pystr \<times> pystr) list \<Rightarrow> error + db" where
  "executemany d [] = Inr d"
| "executemany d ((name, email, password) # rows) =
     (case insert_user d name email password of
        (Inr rowid, d') \<Rightarrow> executemany d' rows
      | (Inl e, d') \<Rightarrow> Inl e)"

definition init_db :: "bcrypt \<Rightarrow> pystr \<Rightarrow> pystr \<Rightarrow> pystr \<Rightarrow> error + db" where
  "init_db bc s1 s2 s3 =
     (case generate_password_hash bc s1 (lit ''password123'') of
        Inl e \<Rightarrow> Inl e
      | Inr h1 \<Rightarrow>
          (case generate_password_hash bc s2 (lit ''secret456'') of
             Inl e \<Rightarrow> Inl e
           | Inr h2 \<Rightarrow>
               (case generate_password_hash bc s3 (lit ''qwerty789'') of
                  Inl e \<Rightarrow> Inl e
                | Inr h3 \<Rightarrow>
                    executemany empty_db
                      [(lit ''John Doe'', lit ''john@example.com'', h1),
                       (lit ''Jane Smith'', lit ''jane@example.com'', h2),
                       (lit ''Bob Johnson'', lit ''bob@example.com'', h3)])))"

section \<open>Notions of the specification\<close>

text \<open>The field names of a returned record, and the value of one field.\<close>

definition json_keys :: "json \<Rightarrow> pystr list" where
  "json_keys j = (case j of JObj kvs \<Rightarrow> map fst kvs | _ \<Rightarrow> [])"


text \<open>
  A row with its password column blanked: two tables that agree on these agree on
  everything but the stored hashes.
\<close>

definition without_password :: "user_row \<Rightarrow> user_row" where
  "without_password r = r\<lparr>col_password := []\<rparr>"

text \<open>
  The specification's search: \<open>s\<close> occurs in \<open>n\<close> as a substring, where the upper
  and the lower case of a letter from A to Z are the same character.
\<close>

fun ci_prefix :: "pystr \<Rightarrow> pystr \<Rightarrow> bool" where
  "ci_prefix [] n = True"
| "ci_prefix (c # cs) [] = False"
| "ci_prefix (c # cs) (x # xs) = (sqlite_lower c = sqlite_lower x \<and> ci_prefix cs xs)"

fun contains_ci :: "pystr \<Rightarrow> pystr \<Rightarrow> bool" where
  "contains_ci s [] = (s = [])"
| "contains_ci s (x # xs) = (ci_prefix s (x # xs) \<or> contains_ci s xs)"

text \<open>
  The specification's offending field of an input object: a required field that is
  missing, a value of the wrong type, or a value that fails the field's constraint.
\<close>

definition offending :: "(pystr \<Rightarrow> bool) \<Rightarrow> (pystr \<times> json) list \<Rightarrow> field_decl \<Rightarrow> bool" where
  "offending is_email kvs f =
     (case map_of kvs (attr f) of
        None \<Rightarrow> required f
      | Some (JStr s) \<Rightarrow>
          (case ftype f of
             FStr \<Rightarrow> (case min_length f of None \<Rightarrow> False | Some m \<Rightarrow> length s < m)
           | FEmail \<Rightarrow> \<not> is_email s
           | FInt \<Rightarrow> True)
      | Some (JInt i) \<Rightarrow> ftype f \<noteq> FInt
      | Some _ \<Rightarrow> True)"

section \<open>An instance of the library parameters\<close>

text \<open>
  The email check, the iteration order of sets and the bcrypt library are parameters of
  the model. The examples below evaluate the model on this instance: an address is
  accepted when it has an at-sign (code point 64), a set is iterated in the order of the
  lengths of its keys, a digest is a two-character salt followed by the password, and
  the library never raises. \<open>sample_db\<close> is the table that \<^verbatim>\<open>init_db.py\<close> leaves with
  this hasher and the salts \<^verbatim>\<open>s1\<close>, \<^verbatim>\<open>s2\<close> and \<^verbatim>\<open>s3\<close>.
\<close>

definition sample_is_email :: "pystr \<Rightarrow> bool" where
  "sample_is_email s = (64 \<in> set s)"

definition sample_rank :: "pystr \<Rightarrow> nat" where
  "sample_rank k = length k"

definition sample_bcrypt :: bcrypt where
  "sample_bcrypt =
     \<lparr>hashpw = (\<lambda>salt password. Inr (take 2 salt @ password)),
      checkpw = (\<lambda>pw_hash password. Inr (drop 2 pw_hash = password))\<rparr>"

definition sample_db :: db where
  "sample_db =
     \<lparr>users =
        [\<lparr>col_id = 1, col_name = lit ''John Doe'', col_email = lit ''john@example.com'',
           col_password = lit ''s1password123''\<rparr>,
         \<lparr>col_id = 2, col_name = lit ''Jane Smith'', col_email = lit ''jane@example.com'',
           col_password = lit ''s2secret456''\<rparr>,
         \<lparr>col_id = 3, col_name = lit ''Bob Johnson'', col_email = lit ''bob@example.com'',
           col_password = lit ''s3qwerty789''\<rparr>],
      seq = 3\<rparr>"

section \<open>Facts about strings and binding\<close>

lemma lit_eq_iff [simp]: "lit a = lit b \<longleftrightarrow> a = b"
  by (simp add: lit_def inj_map_eq_map inj_def)

lemma lit_Nil [simp]: "lit [] = []"
  by (simp add: lit_def)

lemma lit_eq_Nil [simp]: "lit s = [] \<longleftrightarrow> s = []"
  by (simp add: lit_def)

lemma length_lit [simp]: "length (lit s) = length s"
  by (simp add: lit_def)

lemma lit_append: "lit (a @ b) = lit a @ lit b"
  by (simp add: lit_def)

lemma take_lit [simp]: "take n (lit s) = lit (take n s)"
  by (simp add: lit_def take_map)

lemma drop_lit [simp]: "drop n (lit s) = lit (drop n s)"
  by (simp add: lit_def drop_map)

lemma lit_below_256: "c \<in> set (lit s) \<Longrightarrow> c < 256"
  by (auto simp: lit_def)

lemma encodable_lit [simp]: "encodable (lit s)"
  using lit_below_256 [of _ s] by (fastforce simp: encodable_def list_all_iff)

lemma utf8_length_le: "utf8_length s \<le> 4 * length s"
  unfolding utf8_length_def by (induction s) auto

lemma bind_text_lit: "length s \<le> 250000000 \<Longrightarrow> bind_text (lit s) = None"
  using utf8_length_le [of "lit s"] by (simp add: bind_text_def)

lemma bind_text_surrogate [simp]: "bind_text [55296] = Some UnicodeEncodeError"
  by (simp add: bind_text_def encodable_def)

section \<open>The schema's constraints are kept\<close>









lemma insert_user_bound:
  assumes "bind_parameters [bind_text name, bind_text email, bind_text password] = None"
  shows "insert_user d name email password =
     (if max_rowid \<le> largest_rowid d then (Inl Sqlite3Error, d)
      else if email \<in> col_email ` set (users d) then (Inl IntegrityError, d)
      else (Inr (next_rowid d),
            \<lparr>users = users d @ [\<lparr>col_id = next_rowid d, col_name = name, col_email = email,
                col_password = password\<rparr>],
             seq = next_rowid d\<rparr>))"
  using assms by (simp add: insert_user_def Let_def)


lemma insert_user_failure:
  assumes "insert_user d name email password = (Inl e, d')"
  shows "d' = d"
  using assms
  by (auto simp: insert_user_def Let_def split: option.splits if_splits)











section \<open>Histories\<close>






section \<open>What a schema accepts\<close>

lemma deserialize_Some:
  assumes "deserialize is_email f raw = Inr (Some v)"
  shows "raw = Some v \<and>
         (ftype f = FStr \<longrightarrow> (\<exists>s. v = JStr s \<and> (\<forall>m. min_length f = Some m \<longrightarrow> m \<le> length s))) \<and>
         (ftype f = FEmail \<longrightarrow> (\<exists>s. v = JStr s \<and> is_email s))"
  using assms
  by (auto simp: deserialize_def split: option.splits json.splits field_type.splits if_splits)

lemma deserialize_required:
  assumes "required f"
  shows "deserialize is_email f raw \<noteq> Inr None"
  using assms
  by (auto simp: deserialize_def split: option.splits json.splits field_type.splits if_splits)

lemma deserialize_offending:
  "isl (deserialize is_email f (map_of kvs (attr f))) \<longleftrightarrow> offending is_email kvs f"
  by (auto simp: deserialize_def offending_def split: option.splits json.splits field_type.splits if_splits)


lemma load_fields_accumulate:
  "load_fields is_email fs kvs errors ret =
     (errors @ fst (load_fields is_email fs kvs [] []),
      ret @ snd (load_fields is_email fs kvs [] []))"
proof (induction fs arbitrary: errors ret)
  case Nil
  show ?case by simp
next
  case (Cons f fs)
  show ?case
  proof (cases "deserialize is_email f (map_of kvs (attr f))")
    case (Inl messages)
    then show ?thesis
      using Cons [of "errors @ [(attr f, messages)]" ret] Cons [of "[(attr f, messages)]" "[]"]
      by simp
  next
    case (Inr r)
    show ?thesis
    proof (cases r)
      case None
      then show ?thesis using Inr Cons [of errors ret] by simp
    next
      case (Some v)
      then show ?thesis
        using Inr Cons [of errors "ret @ [(attr f, v)]"] Cons [of "[]" "[(attr f, v)]"]
        by simp
    qed
  qed
qed

lemma load_fields_error_keys:
  "map fst (fst (load_fields is_email fs kvs [] [])) =
     map attr (filter (offending is_email kvs) fs)"
proof (induction fs)
  case Nil
  show ?case by simp
next
  case (Cons f fs)
  show ?case
  proof (cases "deserialize is_email f (map_of kvs (attr f))")
    case (Inl messages)
    then have "offending is_email kvs f"
      using deserialize_offending [of is_email f kvs] by simp
    then show ?thesis
      using Inl Cons load_fields_accumulate [of is_email fs kvs "[(attr f, messages)]" "[]"]
      by simp
  next
    case (Inr r)
    then have "\<not> offending is_email kvs f"
      using deserialize_offending [of is_email f kvs] by simp
    show ?thesis
    proof (cases r)
      case None
      then show ?thesis using Inr Cons \<open>\<not> offending is_email kvs f\<close> by simp
    next
      case (Some v)
      then show ?thesis
        using Inr Cons \<open>\<not> offending is_email kvs f\<close>
          load_fields_accumulate [of is_email fs kvs "[]" "[(attr f, v)]"]
        by simp
    qed
  qed
qed

lemma load_object:
  "load is_email rank schema (JObj kvs) =
     (let loaded = filter (\<lambda>f. \<not> dump_only f) schema;
          errors = fst (load_fields is_email loaded kvs [] []) @
                   map (\<lambda>k. (k, [lit ''Unknown field.''])) (unknown_keys rank loaded kvs)
      in if errors = [] then Inr (snd (load_fields is_email loaded kvs [] []))
         else Inl (ValidationError errors))"
  by (simp add: load_def Let_def case_prod_unfold)

lemma set_unknown_keys:
  "set (unknown_keys rank loaded kvs) = {k \<in> fst ` set kvs. k \<notin> attr ` set loaded}"
  by (auto simp: unknown_keys_def)

lemma load_offending:
  assumes "list_ex (offending is_email kvs) (filter (\<lambda>f. \<not> dump_only f) schema)"
  shows "\<exists>messages.
           load is_email rank schema (JObj kvs) = Inl (ValidationError messages) \<and>
           map fst messages =
             map attr (filter (offending is_email kvs) (filter (\<lambda>f. \<not> dump_only f) schema)) @
             unknown_keys rank (filter (\<lambda>f. \<not> dump_only f) schema) kvs"
proof -
  let ?loaded = "filter (\<lambda>f. \<not> dump_only f) schema"
  let ?errors = "fst (load_fields is_email ?loaded kvs [] []) @
                 map (\<lambda>k. (k, [lit ''Unknown field.''])) (unknown_keys rank ?loaded kvs)"
  have keys: "map fst ?errors =
      map attr (filter (offending is_email kvs) ?loaded) @ unknown_keys rank ?loaded kvs"
    by (simp add: load_fields_error_keys comp_def)
  have "filter (offending is_email kvs) ?loaded \<noteq> []"
    using assms by (auto simp: list_ex_iff filter_empty_conv)
  then have "map fst ?errors \<noteq> []" unfolding keys by simp
  then have "?errors \<noteq> []" by auto
  then have "load is_email rank schema (JObj kvs) = Inl (ValidationError ?errors)"
    unfolding load_object Let_def by simp
  with keys show ?thesis by blast
qed

lemma load_not_object:
  assumes "load is_email rank schema data = Inr validated_data"
  shows "\<exists>kvs. data = JObj kvs"
  using assms by (cases data) (simp_all add: load_def)


lemma load_UserUpdateSchema:
  assumes "load is_email rank UserUpdateSchema data = Inr validated_data"
  shows "\<exists>kvs name email.
           data = JObj kvs \<and> kvs \<noteq> [] \<and>
           map_of kvs (lit ''name'') = Some (JStr name) \<and> name \<noteq> [] \<and>
           map_of kvs (lit ''email'') = Some (JStr email) \<and> is_email email \<and>
           validated_data = [(lit ''name'', JStr name), (lit ''email'', JStr email)]"
proof -
  obtain kvs where data: "data = JObj kvs"
    using load_not_object [OF assms] by blast
  let ?name = "\<lparr>attr = lit ''name'', ftype = FStr, required = True, dump_only = False,
                 load_only = False, min_length = Some 1\<rparr>"
  let ?email = "\<lparr>attr = lit ''email'', ftype = FEmail, required = True, dump_only = False,
                  load_only = False, min_length = None\<rparr>"
  from assms data obtain v1 v2 where
    d1: "deserialize is_email ?name (map_of kvs (lit ''name'')) = Inr (Some v1)" and
    d2: "deserialize is_email ?email (map_of kvs (lit ''email'')) = Inr (Some v2)" and
    vd: "validated_data = [(lit ''name'', v1), (lit ''email'', v2)]"
    by (auto simp: load_def Let_def UserUpdateSchema_def deserialize_required
             split: sum.splits option.splits if_splits)
  from deserialize_Some [OF d1] obtain name where
    "map_of kvs (lit ''name'') = Some (JStr name)" "v1 = JStr name" "1 \<le> length name"
    by auto
  moreover from deserialize_Some [OF d2] obtain email where
    "map_of kvs (lit ''email'') = Some (JStr email)" "v2 = JStr email" "is_email email"
    by auto
  moreover have "kvs \<noteq> []" using calculation(1) by auto
  moreover have "name \<noteq> []" using calculation(3) by auto
  ultimately show ?thesis using data vd by blast
qed

lemma load_LoginSchema:
  assumes "load is_email rank LoginSchema data = Inr validated_data"
  shows "\<exists>kvs email password.
           data = JObj kvs \<and> kvs \<noteq> [] \<and>
           map_of kvs (lit ''email'') = Some (JStr email) \<and> is_email email \<and>
           map_of kvs (lit ''password'') = Some (JStr password) \<and>
           validated_data = [(lit ''email'', JStr email), (lit ''password'', JStr password)]"
proof -
  obtain kvs where data: "data = JObj kvs"
    using load_not_object [OF assms] by blast
  let ?email = "\<lparr>attr = lit ''email'', ftype = FEmail, required = True, dump_only = False,
                  load_only = False, min_length = None\<rparr>"
  let ?password = "\<lparr>attr = lit ''password'', ftype = FStr, required = True, dump_only = False,
                     load_only = False, min_length = None\<rparr>"
  from assms data obtain v1 v2 where
    d1: "deserialize is_email ?email (map_of kvs (lit ''email'')) = Inr (Some v1)" and
    d2: "deserialize is_email ?password (map_of kvs (lit ''password'')) = Inr (Some v2)" and
    vd: "validated_data = [(lit ''email'', v1), (lit ''password'', v2)]"
    by (auto simp: load_def Let_def LoginSchema_def deserialize_required
             split: sum.splits option.splits if_splits)
  from deserialize_Some [OF d1] obtain email where
    "map_of kvs (lit ''email'') = Some (JStr email)" "v1 = JStr email" "is_email email"
    by auto
  moreover from deserialize_Some [OF d2] obtain password where
    "map_of kvs (lit ''password'') = Some (JStr password)" "v2 = JStr password"
    by auto
  moreover have "kvs \<noteq> []" using calculation(1) by auto
  ultimately show ?thesis using data vd by blast
qed

section \<open>The sample table\<close>

lemma sample_hash:
  assumes "password \<noteq> []"
  shows "generate_password_hash sample_bcrypt (lit salt) (lit password) =
           Inr (lit (take 2 salt @ password))"
  using assms by (simp add: generate_password_hash_def sample_bcrypt_def lit_append)


lemma init_db_sample:
  "init_db sample_bcrypt (lit ''s1'') (lit ''s2'') (lit ''s3'') = Inr sample_db"
  by (simp add: init_db_def sample_hash empty_db_def sample_db_def insert_user_bound
        bind_text_lit largest_rowid_def next_rowid_def max_rowid_def)


lemma largest_rowid_sample_db: "largest_rowid sample_db = 3"
  by (simp add: sample_db_def largest_rowid_def)

section \<open>Requests without input data\<close>

lemma falsy_values:
  "\<not> truthy data \<longleftrightarrow>
     data \<in> {JNull, JBool False, JInt 0, JFloat (Some 0), JStr [], JArr [], JObj []}"
  by (cases data) auto

text \<open>
  C10. For \<^verbatim>\<open>POST /users\<close>, \<^verbatim>\<open>PUT /user/{id}\<close> and \<^verbatim>\<open>POST /login\<close>, a body that
  parses to a falsy value (the empty object, as well as \<^verbatim>\<open>None\<close>) is answered with
  status 400 and the body \<^verbatim>\<open>{"error": "No input data provided"}\<close>; no schema is loaded
  and the store is not called, so the answer has no per-field messages.
\<close>

theorem no_input_data:
  assumes "\<not> truthy data"
  shows "create_user_route is_email rank bc salt d data =
           \<lparr>response = Response 400 (JObj [(lit ''error'', JStr (lit ''No input data provided''))]),
            store = d, calls = []\<rparr> \<and>
         update_user_route is_email rank d user_id data =
           \<lparr>response = Response 400 (JObj [(lit ''error'', JStr (lit ''No input data provided''))]),
            store = d, calls = []\<rparr> \<and>
         login is_email rank bc d data =
           \<lparr>response = Response 400 (JObj [(lit ''error'', JStr (lit ''No input data provided''))]),
            store = d, calls = []\<rparr>"
  using assms
  by (simp add: create_user_route_def update_user_route_def login_def no_input_def)

theorem no_input_data_witness:
  "\<not> truthy (JObj []) \<and>
   create_user_route sample_is_email sample_rank sample_bcrypt (lit ''s4'') sample_db (JObj []) =
     \<lparr>response = Response 400 (JObj [(lit ''error'', JStr (lit ''No input data provided''))]),
      store = sample_db, calls = []\<rparr> \<and>
   update_user_route sample_is_email sample_rank sample_db 1 (JObj []) =
     \<lparr>response = Response 400 (JObj [(lit ''error'', JStr (lit ''No input data provided''))]),
      store = sample_db, calls = []\<rparr> \<and>
   login sample_is_email sample_rank sample_bcrypt sample_db (JObj []) =
     \<lparr>response = Response 400 (JObj [(lit ''error'', JStr (lit ''No input data provided''))]),
      store = sample_db, calls = []\<rparr>"
  using no_input_data [of "JObj []" sample_is_email sample_rank sample_bcrypt "lit ''s4''" sample_db 1]
  by simp

section \<open>Records returned by reads\<close>

lemma json_keys_row_dict: "json_keys (row_dict r) = [lit ''id'', lit ''name'', lit ''email'']"
  by (simp add: json_keys_def row_dict_def)

lemma row_dict_without_password: "row_dict (without_password r) = row_dict r"
  by (simp add: row_dict_def without_password_def)

lemma col_without_password:
  "col_id (without_password r) = col_id r"
  "col_name (without_password r) = col_name r"
  "col_email (without_password r) = col_email r"
  by (simp_all add: without_password_def)

lemma get_all_users_without_password:
  "get_all_users d = map row_dict (map without_password (users d))"
  by (simp add: get_all_users_def comp_def row_dict_without_password)

lemma get_user_by_id_without_password:
  "get_user_by_id d user_id =
     (case bind_parameters [bind_int user_id] of
        Some e \<Rightarrow> Inl e
      | None \<Rightarrow>
          (case filter (\<lambda>r. col_id r = user_id) (map without_password (users d)) of
             [] \<Rightarrow> Inr None
           | user # _ \<Rightarrow> Inr (Some (row_dict user))))"
proof -
  have "filter (\<lambda>r. col_id r = user_id) (map without_password (users d)) =
        map without_password (filter (\<lambda>r. col_id r = user_id) (users d))"
    by (simp add: filter_map comp_def col_without_password)
  then show ?thesis
    by (simp add: get_user_by_id_def row_dict_without_password
          split: list.splits option.splits)
qed

lemma search_users_without_password:
  "search_users d name =
     (let pattern = lit ''%'' @ name @ lit ''%'' in
      case bind_parameters [bind_text pattern] of
        Some e \<Rightarrow> Inl e
      | None \<Rightarrow>
          if map without_password (users d) \<noteq> [] \<and> 50000 < utf8_length pattern
          then Inl Sqlite3Error
          else Inr (map row_dict
                 (filter (\<lambda>r. sql_like (c_string pattern) (c_string (col_name r)))
                    (map without_password (users d)))))"
  by (simp add: search_users_def Let_def filter_map comp_def col_without_password
        row_dict_without_password split: option.splits)

text \<open>
  C3. Every record that \<^verbatim>\<open>get_all_users\<close>, \<^verbatim>\<open>get_user_by_id\<close> and
  \<^verbatim>\<open>search_users\<close> return has exactly the fields \<^verbatim>\<open>id\<close>, \<^verbatim>\<open>name\<close> and
  \<^verbatim>\<open>email\<close>, so no password field; and the three do not read the stored hashes: on
  two tables that agree on everything but the password column they return the same.
\<close>

theorem reads_exclude_password:
  "list_all (\<lambda>u. json_keys u = [lit ''id'', lit ''name'', lit ''email'']) (get_all_users d) \<and>
   (case get_user_by_id d user_id of
      Inr (Some u) \<Rightarrow> json_keys u = [lit ''id'', lit ''name'', lit ''email'']
    | _ \<Rightarrow> True) \<and>
   (case search_users d name of
      Inr us \<Rightarrow> list_all (\<lambda>u. json_keys u = [lit ''id'', lit ''name'', lit ''email'']) us
    | Inl e \<Rightarrow> True) \<and>
   (map without_password (users d) = map without_password (users d') \<longrightarrow>
      get_all_users d = get_all_users d' \<and>
      get_user_by_id d user_id = get_user_by_id d' user_id \<and>
      search_users d name = search_users d' name)"
proof -
  have "list_all (\<lambda>u. json_keys u = [lit ''id'', lit ''name'', lit ''email'']) (get_all_users d)"
    by (simp add: get_all_users_def list_all_iff json_keys_row_dict)
  moreover have "case get_user_by_id d user_id of
      Inr (Some u) \<Rightarrow> json_keys u = [lit ''id'', lit ''name'', lit ''email'']
    | _ \<Rightarrow> True"
    by (simp add: get_user_by_id_def json_keys_row_dict split: list.splits option.splits)
  moreover have "case search_users d name of
      Inr us \<Rightarrow> list_all (\<lambda>u. json_keys u = [lit ''id'', lit ''name'', lit ''email'']) us
    | Inl e \<Rightarrow> True"
    by (simp add: search_users_def Let_def list_all_iff json_keys_row_dict split: option.splits)
  moreover have "get_all_users d = get_all_users d' \<and>
      get_user_by_id d user_id = get_user_by_id d' user_id \<and>
      search_users d name = search_users d' name"
    if "map without_password (users d) = map without_password (users d')"
    using that
    by (simp only: get_all_users_without_password get_user_by_id_without_password
          search_users_without_password)
  ultimately show ?thesis by blast
qed

theorem reads_exclude_password_witness:
  "map without_password (users sample_db) =
     map without_password
       (users (sample_db\<lparr>users := map (\<lambda>r. r\<lparr>col_password := lit ''x''\<rparr>) (users sample_db)\<rparr>)) \<and>
   get_all_users sample_db =
     get_all_users (sample_db\<lparr>users := map (\<lambda>r. r\<lparr>col_password := lit ''x''\<rparr>) (users sample_db)\<rparr>) \<and>
   get_user_by_id sample_db 2 =
     get_user_by_id (sample_db\<lparr>users := map (\<lambda>r. r\<lparr>col_password := lit ''x''\<rparr>) (users sample_db)\<rparr>) 2 \<and>
   search_users sample_db (lit ''jo'') =
     search_users (sample_db\<lparr>users := map (\<lambda>r. r\<lparr>col_password := lit ''x''\<rparr>) (users sample_db)\<rparr>)
       (lit ''jo'') \<and>
   get_user_by_id sample_db 2 =
     Inr (Some (JObj [(lit ''id'', JInt 2), (lit ''name'', JStr (lit ''Jane Smith'')),
                      (lit ''email'', JStr (lit ''jane@example.com''))])) \<and>
   list_all (\<lambda>u. json_keys u = [lit ''id'', lit ''name'', lit ''email'']) (get_all_users sample_db)"
proof -
  let ?d' = "sample_db\<lparr>users := map (\<lambda>r. r\<lparr>col_password := lit ''x''\<rparr>) (users sample_db)\<rparr>"
  have h: "map without_password (users sample_db) = map without_password (users ?d')"
    by (simp add: without_password_def)
  have v: "get_user_by_id sample_db 2 =
     Inr (Some (JObj [(lit ''id'', JInt 2), (lit ''name'', JStr (lit ''Jane Smith'')),
                      (lit ''email'', JStr (lit ''jane@example.com''))]))"
    by (simp add: sample_db_def get_user_by_id_def row_dict_def bind_int_def max_rowid_def)
  from reads_exclude_password [of sample_db 2 "lit ''jo''" ?d'] h v
  show ?thesis by blast
qed

section \<open>Searching by name\<close>

lemma sql_like_percent: "sql_like [37] n"
  by (induction n) simp_all

lemma ci_prefix_Nil: "ci_prefix s [] \<longleftrightarrow> s = []"
  by (cases s) simp_all

lemma sql_like_literal_prefix:
  assumes "37 \<notin> set s" and "95 \<notin> set s"
  shows "sql_like (s @ [37]) n \<longleftrightarrow> ci_prefix s n"
  using assms
proof (induction s arbitrary: n)
  case Nil
  then show ?case by (simp add: sql_like_percent)
next
  case (Cons c cs)
  then show ?case by (cases n) auto
qed

lemma sql_like_literal:
  assumes "37 \<notin> set s" and "95 \<notin> set s"
  shows "sql_like (37 # s @ [37]) n \<longleftrightarrow> contains_ci s n"
proof (induction n)
  case Nil
  then show ?case
    using sql_like_literal_prefix [OF assms, of "[]"] by (simp add: ci_prefix_Nil)
next
  case (Cons x xs)
  then show ?case
    using sql_like_literal_prefix [OF assms, of "x # xs"] by simp
qed

lemma lit_percent: "lit ''%'' = [37]"
  by (simp add: lit_def)

lemma c_string_pattern:
  assumes "0 \<notin> set name"
  shows "c_string (lit ''%'' @ name @ lit ''%'') = 37 # name @ [37]"
proof -
  have "takeWhile (\<lambda>c. c \<noteq> 0) (name @ [37]) = name @ [37]"
    using assms by (intro takeWhile_eq_all_conv [THEN iffD2]) (auto intro: ccontr)
  then show ?thesis by (simp add: c_string_def lit_percent)
qed

text \<open>
  A query without the characters \<^verbatim>\<open>%\<close>, \<^verbatim>\<open>_\<close> and NUL, which can be bound and is
  within the length that \<^verbatim>\<open>LIKE\<close> accepts, selects the users whose name, up to its first
  NUL, has the query as a substring, up to the case of the letters A to Z.
\<close>

lemma search_users_literal:
  assumes "37 \<notin> set name" and "95 \<notin> set name" and "0 \<notin> set name"
    and "bind_text (lit ''%'' @ name @ lit ''%'') = None"
    and "utf8_length (lit ''%'' @ name @ lit ''%'') \<le> 50000"
  shows "search_users d name =
           Inr (map row_dict (filter (\<lambda>r. contains_ci name (c_string (col_name r))) (users d)))"
  using sql_like_literal [OF assms(1,2)] assms(4,5)
  by (simp add: search_users_def Let_def c_string_pattern [OF assms(3)])

lemma search_users_examples:
  "search_users sample_db (lit ''oh'') =
     Inr [JObj [(lit ''id'', JInt 1), (lit ''name'', JStr (lit ''John Doe'')),
                (lit ''email'', JStr (lit ''john@example.com''))],
          JObj [(lit ''id'', JInt 3), (lit ''name'', JStr (lit ''Bob Johnson'')),
                (lit ''email'', JStr (lit ''bob@example.com''))]]"
  "search_users sample_db (lit ''OH'') = search_users sample_db (lit ''oh'')"
  "search_users sample_db (lit ''zz'') = Inr []"
  "search_users sample_db [] = Inr (get_all_users sample_db)"
  by (simp_all add: search_users_def get_all_users_def sample_db_def row_dict_def
        sqlite_lower_def c_string_def bind_text_def encodable_def utf8_length_def lit_def)

text \<open>
  C6. The query is put into the \<^verbatim>\<open>LIKE\<close> pattern as it is, so its \<^verbatim>\<open>_\<close> and
  \<^verbatim>\<open>%\<close> are wildcards: on the sample table, \<^verbatim>\<open>search_users("_")\<close> returns all three
  users although no name contains an underscore, and \<^verbatim>\<open>search_users("J%n")\<close> returns
  all three although no name contains that text.
\<close>

theorem search_users_wildcard:
  "search_users sample_db (lit ''_'') = Inr (get_all_users sample_db) \<and>
   filter (\<lambda>r. contains_ci (lit ''_'') (col_name r)) (users sample_db) = [] \<and>
   search_users sample_db (lit ''J%n'') =
     Inr [JObj [(lit ''id'', JInt 1), (lit ''name'', JStr (lit ''John Doe'')),
                (lit ''email'', JStr (lit ''john@example.com''))],
          JObj [(lit ''id'', JInt 2), (lit ''name'', JStr (lit ''Jane Smith'')),
                (lit ''email'', JStr (lit ''jane@example.com''))],
          JObj [(lit ''id'', JInt 3), (lit ''name'', JStr (lit ''Bob Johnson'')),
                (lit ''email'', JStr (lit ''bob@example.com''))]]"
  by (simp add: search_users_def get_all_users_def sample_db_def row_dict_def
        sqlite_lower_def c_string_def bind_text_def encodable_def utf8_length_def lit_def)

section \<open>Duplicate emails\<close>

lemma create_user_failure:
  assumes "create_user bc salt d name email password = (Inl e, d')"
  shows "d' = d"
  using assms insert_user_failure
  by (auto simp: create_user_def split: sum.splits)









section \<open>Creating a user\<close>





section \<open>Updating a user\<close>







section \<open>Failed logins\<close>

lemma verify_login_unknown_email:
  assumes "email \<notin> set (map col_email (users d))" and "bind_text email = None"
  shows "verify_login bc d email password = Inr None"
proof -
  have "filter (\<lambda>r. col_email r = email) (users d) = []"
    using assms(1) by (auto simp: filter_empty_conv)
  then show ?thesis using assms(2) by (simp add: verify_login_def)
qed

lemma verify_login_wrong_password:
  assumes "\<forall>r \<in> set (users d). col_email r = email \<longrightarrow>
             check_password_hash bc (col_password r) password = Inr False"
    and "bind_text email = None"
  shows "verify_login bc d email password = Inr None"
proof (cases "filter (\<lambda>r. col_email r = email) (users d)")
  case Nil
  then show ?thesis using assms(2) by (simp add: verify_login_def)
next
  case (Cons user rest)
  then have "user \<in> set (filter (\<lambda>r. col_email r = email) (users d))" by simp
  then have "check_password_hash bc (col_password user) password = Inr False"
    using assms(1) by simp
  then show ?thesis using Cons assms(2) by (simp add: verify_login_def)
qed

lemma login_validated:
  assumes "load is_email rank LoginSchema data =
             Inr [(lit ''email'', JStr email), (lit ''password'', JStr password)]"
  shows "login is_email rank bc d data =
     \<lparr>response =
        (case verify_login bc d email password of
           Inl e \<Rightarrow> handle_login_error e
         | Inr (Some user) \<Rightarrow>
             (case user of
                JObj kvs \<Rightarrow>
                  (case map_of kvs (lit ''id'') of
                     Some user_id \<Rightarrow>
                       Response 200
                         (JObj [(lit ''status'', JStr (lit ''success'')),
                                (lit ''user_id'', user_id),
                                (lit ''message'', JStr (lit ''Login successful''))])
                   | None \<Rightarrow> Unhandled (KeyError (lit ''id'')))
              | _ \<Rightarrow> Unhandled (KeyError (lit ''id'')))
         | Inr None \<Rightarrow>
             Response 401
               (JObj [(lit ''status'', JStr (lit ''failed'')),
                      (lit ''error'', JStr (lit ''Invalid credentials''))])),
      store = d,
      calls = [Load (lit ''LoginSchema''), Verify_login email password]\<rparr>"
proof -
  from load_LoginSchema [OF assms] obtain kvs where "data = JObj kvs" "kvs \<noteq> []"
    by blast
  then show ?thesis using assms by (simp add: login_def getitem_def)
qed

text \<open>
  Where the hasher returns, the two failures of a login are answered alike: for an
  email in the table whose stored hash the hasher compares with the password and finds
  different, and for an email that is not in the table, \<^verbatim>\<open>verify_login\<close> returns
  \<^verbatim>\<open>None\<close> and \<^verbatim>\<open>POST /login\<close> answers 401 with the same body.
\<close>

lemma login_failures_identical:
  assumes "email1 \<in> set (map col_email (users d))"
    and "\<forall>r \<in> set (users d). col_email r = email1 \<longrightarrow>
           check_password_hash bc (col_password r) password1 = Inr False"
    and "email2 \<notin> set (map col_email (users d))"
    and "bind_text email1 = None" and "bind_text email2 = None"
  shows "verify_login bc d email1 password1 = Inr None \<and>
         verify_login bc d email2 password2 = Inr None \<and>
         (load is_email rank LoginSchema data1 =
            Inr [(lit ''email'', JStr email1), (lit ''password'', JStr password1)] \<longrightarrow>
          load is_email rank LoginSchema data2 =
            Inr [(lit ''email'', JStr email2), (lit ''password'', JStr password2)] \<longrightarrow>
            response (login is_email rank bc d data1) =
              Response 401 (JObj [(lit ''status'', JStr (lit ''failed'')),
                                  (lit ''error'', JStr (lit ''Invalid credentials''))]) \<and>
            response (login is_email rank bc d data2) =
              Response 401 (JObj [(lit ''status'', JStr (lit ''failed'')),
                                  (lit ''error'', JStr (lit ''Invalid credentials''))]))"
proof -
  have v1: "verify_login bc d email1 password1 = Inr None"
    using assms(2,4) by (rule verify_login_wrong_password)
  have v2: "verify_login bc d email2 password2 = Inr None"
    using assms(3,5) by (rule verify_login_unknown_email)
  show ?thesis
    using v1 v2 login_validated [of is_email rank data1 email1 password1 bc d]
      login_validated [of is_email rank data2 email2 password2 bc d]
    by simp
qed

text \<open>
  C2. The two failures are not always answered alike. \<^verbatim>\<open>verify_login\<close> calls the hasher
  only when a row has the email, and \<^verbatim>\<open>login\<close> catches only \<^verbatim>\<open>ValidationError\<close>
  and \<^verbatim>\<open>sqlite3.Error\<close>. On the sample table, take the password \<^verbatim>\<open>"\ud800"\<close>, which
  has no UTF-8 encoding and passes validation: with the email of a user the hasher
  raises \<^verbatim>\<open>UnicodeEncodeError\<close> and the request is left unhandled, with an email that
  is not in the table the answer is 401 with \<^verbatim>\<open>"Invalid credentials"\<close>. The answers
  tell whether the email is known.
\<close>

theorem login_reveals_known_email:
  "lit ''john@example.com'' \<in> set (map col_email (users sample_db)) \<and>
   lit ''nobody@example.com'' \<notin> set (map col_email (users sample_db)) \<and>
   load sample_is_email sample_rank LoginSchema
     (JObj [(lit ''email'', JStr (lit ''john@example.com'')), (lit ''password'', JStr [55296])]) =
     Inr [(lit ''email'', JStr (lit ''john@example.com'')), (lit ''password'', JStr [55296])] \<and>
   load sample_is_email sample_rank LoginSchema
     (JObj [(lit ''email'', JStr (lit ''nobody@example.com'')), (lit ''password'', JStr [55296])]) =
     Inr [(lit ''email'', JStr (lit ''nobody@example.com'')), (lit ''password'', JStr [55296])] \<and>
   verify_login sample_bcrypt sample_db (lit ''john@example.com'') [55296] =
     Inl UnicodeEncodeError \<and>
   verify_login sample_bcrypt sample_db (lit ''nobody@example.com'') [55296] = Inr None \<and>
   response (login sample_is_email sample_rank sample_bcrypt sample_db
     (JObj [(lit ''email'', JStr (lit ''john@example.com'')), (lit ''password'', JStr [55296])])) =
     Unhandled UnicodeEncodeError \<and>
   response (login sample_is_email sample_rank sample_bcrypt sample_db
     (JObj [(lit ''email'', JStr (lit ''nobody@example.com'')), (lit ''password'', JStr [55296])])) =
     Response 401 (JObj [(lit ''status'', JStr (lit ''failed'')),
                         (lit ''error'', JStr (lit ''Invalid credentials''))])"
proof -
  have h1: "lit ''john@example.com'' \<in> set (map col_email (users sample_db))"
    and h2: "lit ''nobody@example.com'' \<notin> set (map col_email (users sample_db))"
    by (simp_all add: sample_db_def)
  have l1: "load sample_is_email sample_rank LoginSchema
     (JObj [(lit ''email'', JStr (lit ''john@example.com'')), (lit ''password'', JStr [55296])]) =
     Inr [(lit ''email'', JStr (lit ''john@example.com'')), (lit ''password'', JStr [55296])]"
    by (simp add: load_def LoginSchema_def deserialize_def sample_is_email_def unknown_keys_def
          lit_def)
  have l2: "load sample_is_email sample_rank LoginSchema
     (JObj [(lit ''email'', JStr (lit ''nobody@example.com'')), (lit ''password'', JStr [55296])]) =
     Inr [(lit ''email'', JStr (lit ''nobody@example.com'')), (lit ''password'', JStr [55296])]"
    by (simp add: load_def LoginSchema_def deserialize_def sample_is_email_def unknown_keys_def
          lit_def)
  have v1: "verify_login sample_bcrypt sample_db (lit ''john@example.com'') [55296] =
     Inl UnicodeEncodeError"
    by (simp add: verify_login_def bind_text_lit sample_db_def check_password_hash_def
          encodable_def)
  have v2: "verify_login sample_bcrypt sample_db (lit ''nobody@example.com'') [55296] = Inr None"
    by (simp add: verify_login_def bind_text_lit sample_db_def)
  have r1: "response (login sample_is_email sample_rank sample_bcrypt sample_db
     (JObj [(lit ''email'', JStr (lit ''john@example.com'')), (lit ''password'', JStr [55296])])) =
     Unhandled UnicodeEncodeError"
    by (simp add: login_validated [OF l1] v1 handle_login_error_def)
  have r2: "response (login sample_is_email sample_rank sample_bcrypt sample_db
     (JObj [(lit ''email'', JStr (lit ''nobody@example.com'')), (lit ''password'', JStr [55296])])) =
     Response 401 (JObj [(lit ''status'', JStr (lit ''failed'')),
                         (lit ''error'', JStr (lit ''Invalid credentials''))])"
    by (simp add: login_validated [OF l2] v2)
  show ?thesis using h1 h2 l1 l2 v1 v2 r1 r2 by blast
qed

section \<open>The password of a login\<close>

lemma login_invalid:
  assumes "kvs \<noteq> []"
    and "load is_email rank LoginSchema (JObj kvs) = Inl (ValidationError messages)"
  shows "login is_email rank bc d (JObj kvs) =
           \<lparr>response = validation_error messages, store = d,
            calls = [Load (lit ''LoginSchema'')]\<rparr>"
  using assms by (simp add: login_def handle_login_error_def)

lemma create_user_route_invalid:
  assumes "kvs \<noteq> []"
    and "load is_email rank UserSchema (JObj kvs) = Inl (ValidationError messages)"
  shows "create_user_route is_email rank bc salt d (JObj kvs) =
           \<lparr>response = validation_error messages, store = d,
            calls = [Load (lit ''UserSchema'')]\<rparr>"
  using assms by (simp add: create_user_route_def handle_error_def)

lemma update_user_route_invalid:
  assumes "kvs \<noteq> []"
    and "load is_email rank UserUpdateSchema (JObj kvs) = Inl (ValidationError messages)"
  shows "update_user_route is_email rank d user_id (JObj kvs) =
           \<lparr>response = validation_error messages, store = d,
            calls = [Load (lit ''UserUpdateSchema'')]\<rparr>"
  using assms by (simp add: update_user_route_def handle_error_def)

lemma load_LoginSchema_accepts:
  assumes "map_of kvs (lit ''email'') = Some (JStr email)" and "is_email email"
    and "map_of kvs (lit ''password'') = Some (JStr password)"
    and "set (map fst kvs) \<subseteq> {lit ''email'', lit ''password''}"
  shows "load is_email rank LoginSchema (JObj kvs) =
           Inr [(lit ''email'', JStr email), (lit ''password'', JStr password)]"
proof -
  have "filter (\<lambda>k. k \<noteq> lit ''email'' \<and> k \<noteq> lit ''password'') (map fst kvs) = []"
    using assms(4) by (auto simp: filter_empty_conv)
  then show ?thesis
    using assms(1-3) by (simp add: load_def LoginSchema_def deserialize_def unknown_keys_def)
qed

lemma offending_password:
  assumes "\<forall>password. map_of kvs (lit ''password'') \<noteq> Some (JStr password)"
  shows "offending is_email kvs
           \<lparr>attr = lit ''password'', ftype = FStr, required = True, dump_only = False,
              load_only = False, min_length = None\<rparr>"
  using assms by (auto simp: offending_def split: option.splits json.splits)

text \<open>
  C7 (as the code has it). \<^verbatim>\<open>LoginSchema\<close> declares the password as a required string
  with no length validator. A body that is a JSON object with a valid email, a string
  password of any length and no other key passes validation, and \<^verbatim>\<open>verify_login\<close> is
  called with that password. A body that is a non-empty JSON object whose password is
  missing, null or not a string is answered with the validation error, which has a
  message for \<^verbatim>\<open>password\<close>, and \<^verbatim>\<open>verify_login\<close> is not called.
\<close>

theorem login_password_required:
  "(map_of kvs (lit ''email'') = Some (JStr email) \<and> is_email email \<and>
    map_of kvs (lit ''password'') = Some (JStr password) \<and>
    set (map fst kvs) \<subseteq> {lit ''email'', lit ''password''} \<longrightarrow>
      calls (login is_email rank bc d (JObj kvs)) =
        [Load (lit ''LoginSchema''), Verify_login email password]) \<and>
   (kvs \<noteq> [] \<and> (\<forall>password. map_of kvs (lit ''password'') \<noteq> Some (JStr password)) \<longrightarrow>
      (\<exists>messages.
         login is_email rank bc d (JObj kvs) =
           \<lparr>response = validation_error messages, store = d,
            calls = [Load (lit ''LoginSchema'')]\<rparr> \<and>
         lit ''password'' \<in> set (map fst messages)))"
proof -
  have accepted: "calls (login is_email rank bc d (JObj kvs)) =
        [Load (lit ''LoginSchema''), Verify_login email password]"
    if "map_of kvs (lit ''email'') = Some (JStr email)" "is_email email"
      "map_of kvs (lit ''password'') = Some (JStr password)"
      "set (map fst kvs) \<subseteq> {lit ''email'', lit ''password''}"
  proof -
    have "load is_email rank LoginSchema (JObj kvs) =
            Inr [(lit ''email'', JStr email), (lit ''password'', JStr password)]"
      using that by (rule load_LoginSchema_accepts)
    then show ?thesis by (simp add: login_validated)
  qed
  have rejected: "\<exists>messages.
         login is_email rank bc d (JObj kvs) =
           \<lparr>response = validation_error messages, store = d,
            calls = [Load (lit ''LoginSchema'')]\<rparr> \<and>
         lit ''password'' \<in> set (map fst messages)"
    if "kvs \<noteq> []" "\<forall>password. map_of kvs (lit ''password'') \<noteq> Some (JStr password)"
  proof -
    let ?password = "\<lparr>attr = lit ''password'', ftype = FStr, required = True,
              dump_only = False, load_only = False, min_length = None\<rparr>"
    have bad: "offending is_email kvs ?password"
      using that(2) by (rule offending_password)
    then have "list_ex (offending is_email kvs) (filter (\<lambda>f. \<not> dump_only f) LoginSchema)"
      by (simp add: LoginSchema_def)
    from load_offending [OF this, of rank] obtain messages where
      load: "load is_email rank LoginSchema (JObj kvs) = Inl (ValidationError messages)" and
      keys: "map fst messages =
             map attr (filter (offending is_email kvs) (filter (\<lambda>f. \<not> dump_only f) LoginSchema)) @
             unknown_keys rank (filter (\<lambda>f. \<not> dump_only f) LoginSchema) kvs"
      by blast
    have "lit ''password'' \<in> set (map fst messages)"
      unfolding keys using bad by (simp add: LoginSchema_def)
    then show ?thesis
      using login_invalid [OF that(1) load] by blast
  qed
  show ?thesis using accepted rejected by blast
qed

theorem login_password_required_witness:
  "map_of [(lit ''email'', JStr (lit ''john@example.com'')), (lit ''password'', JStr [])]
     (lit ''password'') = Some (JStr []) \<and>
   sample_is_email (lit ''john@example.com'') \<and>
   calls (login sample_is_email sample_rank sample_bcrypt sample_db
            (JObj [(lit ''email'', JStr (lit ''john@example.com'')), (lit ''password'', JStr [])])) =
     [Load (lit ''LoginSchema''), Verify_login (lit ''john@example.com'') []] \<and>
   map_of [(lit ''email'', JStr (lit ''john@example.com'')), (lit ''password'', JInt 7)]
     (lit ''password'') = Some (JInt 7) \<and>
   (\<exists>messages.
      login sample_is_email sample_rank sample_bcrypt sample_db
        (JObj [(lit ''email'', JStr (lit ''john@example.com'')), (lit ''password'', JInt 7)]) =
        \<lparr>response = validation_error messages, store = sample_db,
         calls = [Load (lit ''LoginSchema'')]\<rparr> \<and>
      lit ''password'' \<in> set (map fst messages))"
proof -
  let ?k1 = "[(lit ''email'', JStr (lit ''john@example.com'')), (lit ''password'', JStr [])]"
  let ?k2 = "[(lit ''email'', JStr (lit ''john@example.com'')), (lit ''password'', JInt 7)]"
  have s: "sample_is_email (lit ''john@example.com'')"
    by (simp add: sample_is_email_def lit_def)
  have h1: "map_of ?k1 (lit ''email'') = Some (JStr (lit ''john@example.com'')) \<and>
            sample_is_email (lit ''john@example.com'') \<and>
            map_of ?k1 (lit ''password'') = Some (JStr []) \<and>
            set (map fst ?k1) \<subseteq> {lit ''email'', lit ''password''}"
    using s by simp
  have h2: "?k2 \<noteq> [] \<and> (\<forall>password. map_of ?k2 (lit ''password'') \<noteq> Some (JStr password))"
    by simp
  from login_password_required
         [of ?k1 "lit ''john@example.com''" sample_is_email "[]" sample_rank sample_bcrypt sample_db]
       login_password_required
         [of ?k2 "lit ''john@example.com''" sample_is_email "[]" sample_rank sample_bcrypt sample_db]
       h1 h2
  show ?thesis by simp
qed

text \<open>
  The claim as stated fails for the empty string: the body
  \<^verbatim>\<open>{"email": "john@example.com", "password": ""}\<close> passes validation, reaches
  \<^verbatim>\<open>verify_login\<close> and is answered with 401, not with a validation error.
\<close>

theorem login_empty_password_counterexample:
  "login sample_is_email sample_rank sample_bcrypt sample_db
     (JObj [(lit ''email'', JStr (lit ''john@example.com'')), (lit ''password'', JStr [])]) =
     \<lparr>response =
        Response 401 (JObj [(lit ''status'', JStr (lit ''failed'')),
                            (lit ''error'', JStr (lit ''Invalid credentials''))]),
      store = sample_db,
      calls = [Load (lit ''LoginSchema''), Verify_login (lit ''john@example.com'') []]\<rparr>"
proof -
  have l: "load sample_is_email sample_rank LoginSchema
     (JObj [(lit ''email'', JStr (lit ''john@example.com'')), (lit ''password'', JStr [])]) =
     Inr [(lit ''email'', JStr (lit ''john@example.com'')), (lit ''password'', JStr [])]"
    by (simp add: load_def LoginSchema_def deserialize_def sample_is_email_def unknown_keys_def
          lit_def)
  have e: "encodable []"
    by (simp add: encodable_def)
  have v: "verify_login sample_bcrypt sample_db (lit ''john@example.com'') [] = Inr None"
    by (simp add: verify_login_def bind_text_lit sample_db_def check_password_hash_def e
          sample_bcrypt_def)
  show ?thesis by (simp add: login_validated [OF l] v)
qed

section \<open>Every offending field is listed\<close>

lemma keys_of_messages:
  assumes "map fst messages = map attr offenders @ unknown_keys rank loaded kvs"
  shows "set (map fst messages) =
           set (map attr offenders) \<union>
           set (filter (\<lambda>k. k \<notin> set (map attr loaded)) (map fst kvs))"
  unfolding assms by (simp add: unknown_keys_def)

text \<open>
  C8 (as the code has it). For a body that is a non-empty JSON object in which a field
  of the handler's schema is offending, \<^verbatim>\<open>POST /users\<close>, \<^verbatim>\<open>PUT /user/{id}\<close> and
  \<^verbatim>\<open>POST /login\<close> answer with the validation error; its messages have a key for every
  offending field and for every key of the body that the schema does not load, and for
  nothing else. The store is not called and keeps its state.
\<close>

theorem validation_lists_every_field:
  assumes "kvs \<noteq> []"
  shows
    "(list_ex (offending is_email kvs) (filter (\<lambda>f. \<not> dump_only f) UserSchema) \<longrightarrow>
        (\<exists>messages.
           create_user_route is_email rank bc salt d (JObj kvs) =
             \<lparr>response = validation_error messages, store = d,
              calls = [Load (lit ''UserSchema'')]\<rparr> \<and>
           set (map fst messages) =
             set (map attr (filter (offending is_email kvs)
                              (filter (\<lambda>f. \<not> dump_only f) UserSchema))) \<union>
             set (filter (\<lambda>k. k \<notin> set (map attr (filter (\<lambda>f. \<not> dump_only f) UserSchema)))
                    (map fst kvs)))) \<and>
     (list_ex (offending is_email kvs) (filter (\<lambda>f. \<not> dump_only f) UserUpdateSchema) \<longrightarrow>
        (\<exists>messages.
           update_user_route is_email rank d user_id (JObj kvs) =
             \<lparr>response = validation_error messages, store = d,
              calls = [Load (lit ''UserUpdateSchema'')]\<rparr> \<and>
           set (map fst messages) =
             set (map attr (filter (offending is_email kvs)
                              (filter (\<lambda>f. \<not> dump_only f) UserUpdateSchema))) \<union>
             set (filter (\<lambda>k. k \<notin> set (map attr (filter (\<lambda>f. \<not> dump_only f) UserUpdateSchema)))
                    (map fst kvs)))) \<and>
     (list_ex (offending is_email kvs) (filter (\<lambda>f. \<not> dump_only f) LoginSchema) \<longrightarrow>
        (\<exists>messages.
           login is_email rank bc d (JObj kvs) =
             \<lparr>response = validation_error messages, store = d,
              calls = [Load (lit ''LoginSchema'')]\<rparr> \<and>
           set (map fst messages) =
             set (map attr (filter (offending is_email kvs)
                              (filter (\<lambda>f. \<not> dump_only f) LoginSchema))) \<union>
             set (filter (\<lambda>k. k \<notin> set (map attr (filter (\<lambda>f. \<not> dump_only f) LoginSchema)))
                    (map fst kvs))))"
proof -
  have create: "\<exists>messages.
           create_user_route is_email rank bc salt d (JObj kvs) =
             \<lparr>response = validation_error messages, store = d,
              calls = [Load (lit ''UserSchema'')]\<rparr> \<and>
           set (map fst messages) =
             set (map attr (filter (offending is_email kvs)
                              (filter (\<lambda>f. \<not> dump_only f) UserSchema))) \<union>
             set (filter (\<lambda>k. k \<notin> set (map attr (filter (\<lambda>f. \<not> dump_only f) UserSchema)))
                    (map fst kvs))"
    if "list_ex (offending is_email kvs) (filter (\<lambda>f. \<not> dump_only f) UserSchema)"
  proof -
    from load_offending [OF that, of rank] obtain messages where
      l: "load is_email rank UserSchema (JObj kvs) = Inl (ValidationError messages)" and
      k: "map fst messages =
            map attr (filter (offending is_email kvs) (filter (\<lambda>f. \<not> dump_only f) UserSchema)) @
            unknown_keys rank (filter (\<lambda>f. \<not> dump_only f) UserSchema) kvs"
      by blast
    show ?thesis
      using create_user_route_invalid [OF assms l, of bc salt d] keys_of_messages [OF k]
      by blast
  qed
  have update: "\<exists>messages.
           update_user_route is_email rank d user_id (JObj kvs) =
             \<lparr>response = validation_error messages, store = d,
              calls = [Load (lit ''UserUpdateSchema'')]\<rparr> \<and>
           set (map fst messages) =
             set (map attr (filter (offending is_email kvs)
                              (filter (\<lambda>f. \<not> dump_only f) UserUpdateSchema))) \<union>
             set (filter (\<lambda>k. k \<notin> set (map attr (filter (\<lambda>f. \<not> dump_only f) UserUpdateSchema)))
                    (map fst kvs))"
    if "list_ex (offending is_email kvs) (filter (\<lambda>f. \<not> dump_only f) UserUpdateSchema)"
  proof -
    from load_offending [OF that, of rank] obtain messages where
      l: "load is_email rank UserUpdateSchema (JObj kvs) = Inl (ValidationError messages)" and
      k: "map fst messages =
            map attr (filter (offending is_email kvs)
                        (filter (\<lambda>f. \<not> dump_only f) UserUpdateSchema)) @
            unknown_keys rank (filter (\<lambda>f. \<not> dump_only f) UserUpdateSchema) kvs"
      by blast
    show ?thesis
      using update_user_route_invalid [OF assms l, of d user_id] keys_of_messages [OF k]
      by blast
  qed
  have login: "\<exists>messages.
           login is_email rank bc d (JObj kvs) =
             \<lparr>response = validation_error messages, store = d,
              calls = [Load (lit ''LoginSchema'')]\<rparr> \<and>
           set (map fst messages) =
             set (map attr (filter (offending is_email kvs)
                              (filter (\<lambda>f. \<not> dump_only f) LoginSchema))) \<union>
             set (filter (\<lambda>k. k \<notin> set (map attr (filter (\<lambda>f. \<not> dump_only f) LoginSchema)))
                    (map fst kvs))"
    if "list_ex (offending is_email kvs) (filter (\<lambda>f. \<not> dump_only f) LoginSchema)"
  proof -
    from load_offending [OF that, of rank] obtain messages where
      l: "load is_email rank LoginSchema (JObj kvs) = Inl (ValidationError messages)" and
      k: "map fst messages =
            map attr (filter (offending is_email kvs) (filter (\<lambda>f. \<not> dump_only f) LoginSchema)) @
            unknown_keys rank (filter (\<lambda>f. \<not> dump_only f) LoginSchema) kvs"
      by blast
    show ?thesis
      using login_invalid [OF assms l, of bc d] keys_of_messages [OF k]
      by blast
  qed
  show ?thesis using create update login by blast
qed

theorem validation_lists_every_field_witness:
  "[(lit ''name'', JStr []), (lit ''email'', JInt 3), (lit ''extra'', JNull)] \<noteq> [] \<and>
   list_ex (offending sample_is_email
              [(lit ''name'', JStr []), (lit ''email'', JInt 3), (lit ''extra'', JNull)])
     (filter (\<lambda>f. \<not> dump_only f) UserSchema) \<and>
   (\<exists>messages.
      create_user_route sample_is_email sample_rank sample_bcrypt (lit ''s4'') sample_db
        (JObj [(lit ''name'', JStr []), (lit ''email'', JInt 3), (lit ''extra'', JNull)]) =
        \<lparr>response = validation_error messages, store = sample_db,
         calls = [Load (lit ''UserSchema'')]\<rparr> \<and>
      set (map fst messages) = {lit ''name'', lit ''email'', lit ''password'', lit ''extra''}) \<and>
   (\<exists>messages.
      update_user_route sample_is_email sample_rank sample_db 1
        (JObj [(lit ''name'', JStr []), (lit ''email'', JInt 3), (lit ''extra'', JNull)]) =
        \<lparr>response = validation_error messages, store = sample_db,
         calls = [Load (lit ''UserUpdateSchema'')]\<rparr> \<and>
      set (map fst messages) = {lit ''name'', lit ''email'', lit ''extra''}) \<and>
   (\<exists>messages.
      login sample_is_email sample_rank sample_bcrypt sample_db
        (JObj [(lit ''name'', JStr []), (lit ''email'', JInt 3), (lit ''extra'', JNull)]) =
        \<lparr>response = validation_error messages, store = sample_db,
         calls = [Load (lit ''LoginSchema'')]\<rparr> \<and>
      set (map fst messages) = {lit ''email'', lit ''password'', lit ''name'', lit ''extra''})"
proof -
  let ?kvs = "[(lit ''name'', JStr []), (lit ''email'', JInt 3), (lit ''extra'', JNull)]"
  have h0: "?kvs \<noteq> []" by simp
  have h1: "list_ex (offending sample_is_email ?kvs) (filter (\<lambda>f. \<not> dump_only f) UserSchema)"
    "set (map attr (filter (offending sample_is_email ?kvs)
                      (filter (\<lambda>f. \<not> dump_only f) UserSchema))) \<union>
     set (filter (\<lambda>k. k \<notin> set (map attr (filter (\<lambda>f. \<not> dump_only f) UserSchema)))
            (map fst ?kvs)) =
       {lit ''name'', lit ''email'', lit ''password'', lit ''extra''}"
    by (auto simp: offending_def UserSchema_def)
  have h2: "list_ex (offending sample_is_email ?kvs) (filter (\<lambda>f. \<not> dump_only f) UserUpdateSchema)"
    "set (map attr (filter (offending sample_is_email ?kvs)
                      (filter (\<lambda>f. \<not> dump_only f) UserUpdateSchema))) \<union>
     set (filter (\<lambda>k. k \<notin> set (map attr (filter (\<lambda>f. \<not> dump_only f) UserUpdateSchema)))
            (map fst ?kvs)) =
       {lit ''name'', lit ''email'', lit ''extra''}"
    by (auto simp: offending_def UserUpdateSchema_def)
  have h3: "list_ex (offending sample_is_email ?kvs) (filter (\<lambda>f. \<not> dump_only f) LoginSchema)"
    "set (map attr (filter (offending sample_is_email ?kvs)
                      (filter (\<lambda>f. \<not> dump_only f) LoginSchema))) \<union>
     set (filter (\<lambda>k. k \<notin> set (map attr (filter (\<lambda>f. \<not> dump_only f) LoginSchema)))
            (map fst ?kvs)) =
       {lit ''email'', lit ''password'', lit ''name'', lit ''extra''}"
    by (auto simp: offending_def LoginSchema_def)
  from validation_lists_every_field
         [OF h0, of sample_is_email sample_rank sample_bcrypt "lit ''s4''" sample_db 1]
  show ?thesis
    unfolding h1(2) h2(2) h3(2) using h1(1) h2(1) h3(1) by simp
qed

text \<open>
  The claim as stated fails for the empty object: all three required fields of
  \<^verbatim>\<open>UserSchema\<close> are missing from it, yet the answer is
  \<^verbatim>\<open>{"error": "No input data provided"}\<close>, which lists no field.
\<close>

theorem validation_empty_object_counterexample:
  "list_ex (offending sample_is_email []) (filter (\<lambda>f. \<not> dump_only f) UserSchema) \<and>
   map attr (filter (offending sample_is_email []) (filter (\<lambda>f. \<not> dump_only f) UserSchema)) =
     [lit ''name'', lit ''email'', lit ''password''] \<and>
   create_user_route sample_is_email sample_rank sample_bcrypt (lit ''s4'') sample_db (JObj []) =
     \<lparr>response = Response 400 (JObj [(lit ''error'', JStr (lit ''No input data provided''))]),
      store = sample_db, calls = []\<rparr>"
  by (simp add: offending_def UserSchema_def create_user_route_def no_input_def)

end
